theory Spec2Isabelle
  imports
    Main
    "HOL-Library.Char_ord"
    "HOL-Library.List_Lexorder"
    "HOL-Library.Option_ord"
begin

section \<open>Driver Monitoring System backend: connection manager and WebSocket session\<close>

text \<open>
  A shallow embedding of \<^verbatim>\<open>src/backend/main.py\<close>: the class
  \<^verbatim>\<open>ConnectionManager\<close> (\<^verbatim>\<open>connect\<close>, \<^verbatim>\<open>disconnect\<close>,
  \<^verbatim>\<open>send_to_all\<close>), the coroutine \<^verbatim>\<open>websocket_endpoint\<close> and the REST
  handlers that read or write the manager.

  Each coroutine is modelled as it runs when no other coroutine is scheduled at its
  \<^verbatim>\<open>await\<close> points; interleavings of several coroutines are built from whole
  operations (section \<open>Executions\<close>). The calls of \<^verbatim>\<open>logging\<close> write nothing
  that the program reads and are left out.
\<close>

subsection \<open>Python values and exceptions\<close>

text \<open>
  A WebSocket object is known to the manager by its identity only (Starlette sets
  \<^verbatim>\<open>__eq__ = object.__eq__\<close> on connections), so a connection is a number.
\<close>

type_synonym conn = nat

datatype exn =
    WebSocketDisconnect
  | RuntimeError
  | JSONDecodeError
  | AttributeError
  | TypeError
  | ValueError

text \<open>
  The values that \<^verbatim>\<open>json.loads\<close> returns and that the handlers build as messages.
  \<open>PFloat\<close> carries the \<^verbatim>\<open>repr\<close> of the float, \<open>PObject\<close> is any other Python
  object (one that \<^verbatim>\<open>json.dumps\<close> rejects). The items of a \<^verbatim>\<open>dict\<close> are an
  association list.
\<close>

datatype pyval =
    PNone
  | PBool bool
  | PInt int
  | PFloat string
  | PStr string
  | PList "pyval list"
  | PDict "(string \<times> pyval) list"
  | PObject

fun serializable :: "pyval \<Rightarrow> bool" where
  "serializable (PList vs) = list_all serializable vs"
| "serializable (PDict kvs) = list_all (\<lambda>kv. serializable (snd kv)) kvs"
| "serializable PObject = False"
| "serializable _ = True"

text \<open>
  \<^verbatim>\<open>json.dumps(v)\<close>: raises \<^verbatim>\<open>TypeError\<close> on a value that is not serializable.
  The text it returns is represented by the value it encodes.
\<close>

definition json_dumps :: "pyval \<Rightarrow> exn + pyval" where
  "json_dumps v = (if serializable v then Inr v else Inl TypeError)"

text \<open>
  \<^verbatim>\<open>message.get("type")\<close>: \<^verbatim>\<open>dict.get\<close> returns \<^verbatim>\<open>None\<close> for a missing key;
  a value that is not a \<^verbatim>\<open>dict\<close> (a list, a string, a number, \<^verbatim>\<open>None\<close>) has no
  attribute \<^verbatim>\<open>get\<close>.
\<close>

fun py_get :: "pyval \<Rightarrow> string \<Rightarrow> exn + pyval" where
  "py_get (PDict kvs) k = (case map_of kvs k of None \<Rightarrow> Inr PNone | Some v \<Rightarrow> Inr v)"
| "py_get _ k = Inl AttributeError"

text \<open>
  \<^verbatim>\<open>xs.remove(x)\<close>: removes the first element equal to \<^verbatim>\<open>x\<close>, raises
  \<^verbatim>\<open>ValueError\<close> when there is none.
\<close>

definition list_remove :: "'a \<Rightarrow> 'a list \<Rightarrow> exn + 'a list" where
  "list_remove x xs = (if x \<in> set xs then Inr (remove1 x xs) else Inl ValueError)"

subsection \<open>The environment: clock and transports\<close>

text \<open>
  What the program reads and writes outside the manager:
  \<^item> \<open>clock\<close> and \<open>ticks\<close>: the \<open>n\<close>-th call of \<^verbatim>\<open>datetime.now().isoformat()\<close>
    in the process returns \<open>clock n\<close>; \<open>ticks\<close> counts the calls made so far;
  \<^item> \<open>dead\<close>: the connections whose transport has failed: \<^verbatim>\<open>accept\<close> and
    \<^verbatim>\<open>send_text\<close> raise on them;
  \<^item> \<open>delivered\<close>: the text frames handed to the transports, oldest first, each with
    the connection it was sent on.
\<close>

record env =
  clock :: "nat \<Rightarrow> string"
  ticks :: nat
  dead :: "conn set"
  delivered :: "(conn \<times> pyval) list"

definition datetime_now :: "env \<Rightarrow> string \<times> env" where
  "datetime_now e = (clock e (ticks e), e\<lparr>ticks := ticks e + 1\<rparr>)"

definition accept :: "conn \<Rightarrow> env \<Rightarrow> exn + env" where
  "accept websocket e = (if websocket \<in> dead e then Inl RuntimeError else Inr e)"

definition send_text :: "conn \<Rightarrow> pyval \<Rightarrow> env \<Rightarrow> exn + env" where
  "send_text websocket text e =
     (if websocket \<in> dead e then Inl RuntimeError
      else Inr (e\<lparr>delivered := delivered e @ [(websocket, text)]\<rparr>))"

subsection \<open>ConnectionManager\<close>

record stats_dict =
  total_connections :: int
  is_monitoring :: bool
  last_update :: "string option"

record connection_manager =
  active_connections :: "conn list"
  stats :: stats_dict

text \<open>\<^verbatim>\<open>ConnectionManager.__init__\<close>\<close>

definition init :: connection_manager where
  "init =
     \<lparr>active_connections = [],
      stats = \<lparr>total_connections = 0, is_monitoring = False, last_update = None\<rparr>\<rparr>"

text \<open>\<^verbatim>\<open>self.stats[key] = value\<close> for the three keys.\<close>

definition set_total_connections :: "int \<Rightarrow> connection_manager \<Rightarrow> connection_manager" where
  "set_total_connections n m = m\<lparr>stats := (stats m)\<lparr>total_connections := n\<rparr>\<rparr>"

definition set_is_monitoring :: "bool \<Rightarrow> connection_manager \<Rightarrow> connection_manager" where
  "set_is_monitoring b m = m\<lparr>stats := (stats m)\<lparr>is_monitoring := b\<rparr>\<rparr>"

definition set_last_update :: "string \<Rightarrow> connection_manager \<Rightarrow> connection_manager" where
  "set_last_update t m = m\<lparr>stats := (stats m)\<lparr>last_update := Some t\<rparr>\<rparr>"

text \<open>
  \<^verbatim>\<open>connect\<close> (lines 40-45): an exception of \<^verbatim>\<open>accept\<close> leaves before anything
  is written.
\<close>

definition connect :: "conn \<Rightarrow> env \<Rightarrow> connection_manager \<Rightarrow> exn + env \<times> connection_manager" where
  "connect websocket e m =
     (case accept websocket e of
        Inl x \<Rightarrow> Inl x
      | Inr e1 \<Rightarrow>
          (let m1 = m\<lparr>active_connections := active_connections m @ [websocket]\<rparr>;
               m2 = set_total_connections (int (length (active_connections m1))) m1;
               (t, e2) = datetime_now e1;
               m3 = set_last_update t m2
           in Inr (e2, m3)))"

text \<open>\<^verbatim>\<open>disconnect\<close> (lines 47-52).\<close>

definition disconnect :: "conn \<Rightarrow> env \<Rightarrow> connection_manager \<Rightarrow> exn + env \<times> connection_manager" where
  "disconnect websocket e m =
     (case (if websocket \<in> set (active_connections m)
            then (case list_remove websocket (active_connections m) of
                    Inl x \<Rightarrow> Inl x
                  | Inr xs \<Rightarrow> Inr (m\<lparr>active_connections := xs\<rparr>))
            else Inr m) of
        Inl x \<Rightarrow> Inl x
      | Inr m1 \<Rightarrow>
          (let m2 = set_total_connections (int (length (active_connections m1))) m1;
               (t, e1) = datetime_now e;
               m3 = set_last_update t m2
           in Inr (e1, m3)))"

text \<open>
  \<^verbatim>\<open>send_to_all\<close> (lines 54-62). The \<^verbatim>\<open>for\<close> loop runs a list iterator over
  \<^verbatim>\<open>self.active_connections\<close> while the body removes elements from that same list:
  the iterator keeps an index \<open>i\<close>, stops as soon as \<open>i\<close> is not below the current
  length, and otherwise yields the element now at \<open>i\<close> and moves to \<open>i + 1\<close>.
  The bare \<^verbatim>\<open>except:\<close> catches whatever \<^verbatim>\<open>json.dumps\<close> or \<^verbatim>\<open>send_text\<close>
  raises; an exception raised in the handler itself would leave the function.
\<close>

function for_connection :: "pyval \<Rightarrow> nat \<Rightarrow> env \<Rightarrow> connection_manager \<Rightarrow> exn + env \<times> connection_manager" where
  "for_connection message i e m =
     (if i < length (active_connections m) then
        (let connection = active_connections m ! i in
         case (case json_dumps message of
                 Inl x \<Rightarrow> Inl x
               | Inr text \<Rightarrow> send_text connection text e) of
           Inr e1 \<Rightarrow> for_connection message (i + 1) e1 m
         | Inl x \<Rightarrow>
             (if connection \<in> set (active_connections m) then
                (case list_remove connection (active_connections m) of
                   Inl y \<Rightarrow> Inl y
                 | Inr xs \<Rightarrow> for_connection message (i + 1) e (m\<lparr>active_connections := xs\<rparr>))
              else for_connection message (i + 1) e m))
      else Inr (e, m))"
  by pat_completeness auto
termination
  by (relation "measure (\<lambda>(message, i, e, m). length (active_connections m) - i)")
    (auto simp: list_remove_def length_remove1 split: if_splits)

declare for_connection.simps [simp del]

definition send_to_all :: "pyval \<Rightarrow> env \<Rightarrow> connection_manager \<Rightarrow> exn + env \<times> connection_manager" where
  "send_to_all message e m = for_connection message 0 e m"

subsection \<open>The WebSocket session\<close>

text \<open>
  What \<^verbatim>\<open>await websocket.receive_text()\<close> gives the loop: it raises
  (\<^verbatim>\<open>WebSocketDisconnect\<close> when the client has closed) or returns a text.
\<close>

datatype inbound = Raises exn | Text string

text \<open>\<^verbatim>\<open>manager.stats\<close> as the value that \<^verbatim>\<open>json.dumps\<close> is given.\<close>

definition stats_value :: "stats_dict \<Rightarrow> pyval" where
  "stats_value st =
     PDict [(''total_connections'', PInt (total_connections st)),
            (''is_monitoring'', PBool (is_monitoring st)),
            (''last_update'', (case last_update st of None \<Rightarrow> PNone | Some t \<Rightarrow> PStr t))]"

text \<open>
  The statements of a \<^verbatim>\<open>try\<close> block return the exception they raised, if any,
  together with the state they left: what was written before the exception stays written.
\<close>

type_synonym outcome = "exn option \<times> env \<times> connection_manager"

text \<open>\<^verbatim>\<open>await websocket.send_text(json.dumps(v))\<close>\<close>

definition reply :: "conn \<Rightarrow> pyval \<Rightarrow> env \<Rightarrow> connection_manager \<Rightarrow> outcome" where
  "reply websocket v e m =
     (case json_dumps v of
        Inl x \<Rightarrow> (Some x, e, m)
      | Inr text \<Rightarrow>
          (case send_text websocket text e of
             Inl x \<Rightarrow> (Some x, e, m)
           | Inr e1 \<Rightarrow> (None, e1, m)))"

text \<open>
  One pass through the body of \<^verbatim>\<open>while True\<close> (lines 76-103). \<open>loads\<close> is
  \<^verbatim>\<open>json.loads\<close>. \<^verbatim>\<open>message.get("type")\<close> gives the same result in every
  \<^verbatim>\<open>elif\<close>, so it is evaluated once; a decoded value equals the \<^verbatim>\<open>str\<close> literal
  of a branch exactly when it is that string.
\<close>

definition loop_body ::
  "(string \<Rightarrow> exn + pyval) \<Rightarrow> conn \<Rightarrow> inbound \<Rightarrow> env \<Rightarrow> connection_manager \<Rightarrow> outcome" where
  "loop_body loads websocket inb e m =
     (case inb of
        Raises x \<Rightarrow> (Some x, e, m)
      | Text data \<Rightarrow>
          (case loads data of
             Inl x \<Rightarrow> (Some x, e, m)
           | Inr message \<Rightarrow>
               (case py_get message ''type'' of
                  Inl x \<Rightarrow> (Some x, e, m)
                | Inr ty \<Rightarrow>
                    if ty = PStr ''ping'' then
                      (let (t, e1) = datetime_now e
                       in reply websocket
                            (PDict [(''type'', PStr ''pong''), (''timestamp'', PStr t)]) e1 m)
                    else if ty = PStr ''get_stats'' then
                      reply websocket
                        (PDict [(''type'', PStr ''stats''), (''data'', stats_value (stats m))]) e m
                    else if ty = PStr ''start_monitoring'' then
                      (let m1 = set_is_monitoring True m;
                           (t, e1) = datetime_now e;
                           m2 = set_last_update t m1
                       in reply websocket
                            (PDict [(''type'', PStr ''monitoring_started''),
                                    (''message'', PStr ''Monitoring started successfully'')]) e1 m2)
                    else if ty = PStr ''stop_monitoring'' then
                      (let m1 = set_is_monitoring False m;
                           (t, e1) = datetime_now e;
                           m2 = set_last_update t m1
                       in reply websocket
                            (PDict [(''type'', PStr ''monitoring_stopped''),
                                    (''message'', PStr ''Monitoring stopped successfully'')]) e1 m2)
                    else (None, e, m))))"

datatype session = Active | Closed

text \<open>
  One pass with the two \<^verbatim>\<open>except\<close> clauses (lines 105-109): both call
  \<^verbatim>\<open>manager.disconnect\<close> and leave the loop; the second logs the error first.
\<close>

definition websocket_step ::
  "(string \<Rightarrow> exn + pyval) \<Rightarrow> conn \<Rightarrow> inbound \<Rightarrow> env \<Rightarrow> connection_manager
     \<Rightarrow> exn + session \<times> env \<times> connection_manager" where
  "websocket_step loads websocket inb e m =
     (case loop_body loads websocket inb e m of
        (None, e1, m1) \<Rightarrow> Inr (Active, e1, m1)
      | (Some x, e1, m1) \<Rightarrow>
          (case (case x of
                   WebSocketDisconnect \<Rightarrow> disconnect websocket e1 m1
                 | _ \<Rightarrow> disconnect websocket e1 m1) of
             Inl y \<Rightarrow> Inl y
           | Inr (e2, m2) \<Rightarrow> Inr (Closed, e2, m2)))"

text \<open>
  The loop over the inbound events of one connection; when they are used up the session
  is suspended in \<^verbatim>\<open>receive_text\<close>, still active.
\<close>

fun websocket_loop ::
  "(string \<Rightarrow> exn + pyval) \<Rightarrow> conn \<Rightarrow> inbound list \<Rightarrow> env \<Rightarrow> connection_manager
     \<Rightarrow> exn + session \<times> env \<times> connection_manager" where
  "websocket_loop loads websocket [] e m = Inr (Active, e, m)"
| "websocket_loop loads websocket (inb # inbs) e m =
     (case websocket_step loads websocket inb e m of
        Inl x \<Rightarrow> Inl x
      | Inr (Closed, e1, m1) \<Rightarrow> Inr (Closed, e1, m1)
      | Inr (Active, e1, m1) \<Rightarrow> websocket_loop loads websocket inbs e1 m1)"

definition websocket_endpoint ::
  "(string \<Rightarrow> exn + pyval) \<Rightarrow> conn \<Rightarrow> inbound list \<Rightarrow> env \<Rightarrow> connection_manager
     \<Rightarrow> exn + session \<times> env \<times> connection_manager" where
  "websocket_endpoint loads websocket inbs e m =
     (case connect websocket e m of
        Inl x \<Rightarrow> Inl x
      | Inr (e1, m1) \<Rightarrow> websocket_loop loads websocket inbs e1 m1)"

subsection \<open>REST handlers\<close>

text \<open>\<^verbatim>\<open>POST /start\<close> and \<^verbatim>\<open>POST /stop\<close> (lines 140-166), with the response body.\<close>

definition start_monitoring ::
  "env \<Rightarrow> connection_manager \<Rightarrow> exn + pyval \<times> env \<times> connection_manager" where
  "start_monitoring e m =
     (let m1 = set_is_monitoring True m;
          (t, e1) = datetime_now e;
          m2 = set_last_update t m1
      in case send_to_all
                (PDict [(''type'', PStr ''monitoring_started''),
                        (''message'', PStr ''Monitoring started from API'')]) e1 m2 of
           Inl x \<Rightarrow> Inl x
         | Inr (e2, m3) \<Rightarrow>
             Inr (PDict [(''message'', PStr ''Monitoring started''),
                         (''status'', PStr ''success'')], e2, m3))"

definition stop_monitoring ::
  "env \<Rightarrow> connection_manager \<Rightarrow> exn + pyval \<times> env \<times> connection_manager" where
  "stop_monitoring e m =
     (let m1 = set_is_monitoring False m;
          (t, e1) = datetime_now e;
          m2 = set_last_update t m1
      in case send_to_all
                (PDict [(''type'', PStr ''monitoring_stopped''),
                        (''message'', PStr ''Monitoring stopped from API'')]) e1 m2 of
           Inl x \<Rightarrow> Inl x
         | Inr (e2, m3) \<Rightarrow>
             Inr (PDict [(''message'', PStr ''Monitoring stopped''),
                         (''status'', PStr ''success'')], e2, m3))"

text \<open>\<^verbatim>\<open>GET /health\<close> and \<^verbatim>\<open>GET /stats\<close> (lines 122-138): they read the manager.\<close>

definition health_check :: "env \<Rightarrow> connection_manager \<Rightarrow> pyval \<times> env" where
  "health_check e m =
     (let (t, e1) = datetime_now e
      in (PDict [(''status'', PStr ''healthy''),
                 (''timestamp'', PStr t),
                 (''active_connections'', PInt (int (length (active_connections m)))),
                 (''monitoring'', PBool (is_monitoring (stats m)))], e1))"

definition get_stats :: "env \<Rightarrow> connection_manager \<Rightarrow> pyval \<times> env" where
  "get_stats e m =
     (let (t, e1) = datetime_now e
      in (PDict [(''stats'', stats_value (stats m)), (''timestamp'', PStr t)], e1))"

subsection \<open>Executions\<close>

text \<open>
  The process as a sequence of whole operations on the one manager: a client connects, a
  session handles one inbound event, a REST handler runs, or (outside the program) the
  transport of a connection fails. An exception that leaves a handler is logged by the
  server and the process goes on with the state the handler left; of these operations
  only \<^verbatim>\<open>connect\<close> can raise, before it has written anything.
\<close>

datatype event =
    Connect conn
  | Receive conn inbound
  | PostStart
  | PostStop
  | GetHealth
  | GetStats
  | TransportFails conn

fun exec :: "(string \<Rightarrow> exn + pyval) \<Rightarrow> event \<Rightarrow> env \<times> connection_manager \<Rightarrow> env \<times> connection_manager" where
  "exec loads (Connect c) (e, m) =
     (case connect c e m of Inl x \<Rightarrow> (e, m) | Inr s \<Rightarrow> s)"
| "exec loads (Receive c inb) (e, m) =
     (case websocket_step loads c inb e m of Inl x \<Rightarrow> (e, m) | Inr (st, s) \<Rightarrow> s)"
| "exec loads PostStart (e, m) =
     (case start_monitoring e m of Inl x \<Rightarrow> (e, m) | Inr (body, s) \<Rightarrow> s)"
| "exec loads PostStop (e, m) =
     (case stop_monitoring e m of Inl x \<Rightarrow> (e, m) | Inr (body, s) \<Rightarrow> s)"
| "exec loads GetHealth (e, m) = (snd (health_check e m), m)"
| "exec loads GetStats (e, m) = (snd (get_stats e m), m)"
| "exec loads (TransportFails c) (e, m) = (e\<lparr>dead := insert c (dead e)\<rparr>, m)"

fun run :: "(string \<Rightarrow> exn + pyval) \<Rightarrow> event list \<Rightarrow> env \<times> connection_manager \<Rightarrow> env \<times> connection_manager" where
  "run loads [] s = s"
| "run loads (ev # evs) s = run loads evs (exec loads ev s)"

text \<open>
  Sequences of \<^verbatim>\<open>connect\<close> and \<^verbatim>\<open>disconnect\<close> calls, and the callers' contract on
  them: a connection is passed to \<^verbatim>\<open>connect\<close> only while it is not in
  \<^verbatim>\<open>active_connections\<close>.
\<close>

datatype call = Register conn | Unregister conn

fun call1 :: "call \<Rightarrow> env \<times> connection_manager \<Rightarrow> env \<times> connection_manager" where
  "call1 (Register c) (e, m) = (case connect c e m of Inl x \<Rightarrow> (e, m) | Inr s \<Rightarrow> s)"
| "call1 (Unregister c) (e, m) = (case disconnect c e m of Inl x \<Rightarrow> (e, m) | Inr s \<Rightarrow> s)"

fun calls :: "call list \<Rightarrow> env \<times> connection_manager \<Rightarrow> env \<times> connection_manager" where
  "calls [] s = s"
| "calls (c # cs) s = calls cs (call1 c s)"

fun registered_once :: "call list \<Rightarrow> env \<times> connection_manager \<Rightarrow> bool" where
  "registered_once [] s = True"
| "registered_once (Register c # cs) s =
     (c \<notin> set (active_connections (snd s)) \<and> registered_once cs (call1 (Register c) s))"
| "registered_once (Unregister c # cs) s = registered_once cs (call1 (Unregister c) s)"

text \<open>
  How the clock and \<^verbatim>\<open>last_update\<close> stand between two states: the clock is the
  same, \<^verbatim>\<open>last_update\<close> has not gone down, and it is not above the reading that the
  next call of \<^verbatim>\<open>datetime.now()\<close> will return. ISO-8601 texts of one format are
  ordered as strings (lexicographically) the way their instants are ordered.
\<close>

definition advances :: "env \<times> connection_manager \<Rightarrow> env \<times> connection_manager \<Rightarrow> bool" where
  "advances s s' =
     (clock (fst s') = clock (fst s)
      \<and> last_update (stats (snd s)) \<le> last_update (stats (snd s'))
      \<and> last_update (stats (snd s')) \<le> Some (clock (fst s') (ticks (fst s'))))"

subsection \<open>Sample data\<close>

text \<open>
  \<open>env0\<close>: a clock that moves forward. \<open>env_dst\<close>: a wall clock that is set back one
  hour between its second and third reading (\<^verbatim>\<open>datetime.now()\<close> is naive local time).
  \<open>loads0\<close>: \<^verbatim>\<open>json.loads\<close> on the texts used in the examples.
\<close>

definition env0 :: env where
  "env0 = \<lparr>clock = (\<lambda>n. if n = 0 then ''2025-06-01T09:15:00.120000''
                         else if n = 1 then ''2025-06-01T09:15:02''
                         else if n = 2 then ''2025-06-01T09:15:02.000750''
                         else if n = 3 then ''2025-06-01T09:15:07.301000''
                         else ''2025-06-01T09:16:00''),
           ticks = 0, dead = {}, delivered = []\<rparr>"

definition env_dst :: env where
  "env_dst = \<lparr>clock = (\<lambda>n. if n = 0 then ''2025-10-26T02:59:58.000120''
                            else if n = 1 then ''2025-10-26T02:59:59.310000''
                            else ''2025-10-26T02:00:00.450000''),
              ticks = 0, dead = {}, delivered = []\<rparr>"

definition loads0 :: "string \<Rightarrow> exn + pyval" where
  "loads0 data =
     (if data = ''{\"type\": \"frobnicate\"}'' then Inr (PDict [(''type'', PStr ''frobnicate'')])
      else if data = ''{\"type\": \"get_stats\"}'' then Inr (PDict [(''type'', PStr ''get_stats'')])
      else if data = ''{\"type\": \"start_monitoring\"}'' then Inr (PDict [(''type'', PStr ''start_monitoring'')])
      else if data = ''{\"type\": \"stop_monitoring\"}'' then Inr (PDict [(''type'', PStr ''stop_monitoring'')])
      else if data = ''{\"type\": \"ping\"}'' then Inr (PDict [(''type'', PStr ''ping'')])
      else if data = ''[1, 2]'' then Inr (PList [PInt 1, PInt 2])
      else Inl JSONDecodeError)"

section \<open>Basic facts\<close>

subsection \<open>The operations in closed form\<close>

lemma disconnect_eq:
  "disconnect websocket e m =
     Inr (e\<lparr>ticks := ticks e + 1\<rparr>,
          set_last_update (clock e (ticks e))
            (set_total_connections (int (length (remove1 websocket (active_connections m))))
               (m\<lparr>active_connections := remove1 websocket (active_connections m)\<rparr>)))"
  by (simp add: disconnect_def list_remove_def datetime_now_def remove1_idem)

lemma connect_eq:
  "connect websocket e m =
     (if websocket \<in> dead e then Inl RuntimeError
      else Inr (e\<lparr>ticks := ticks e + 1\<rparr>,
          set_last_update (clock e (ticks e))
            (set_total_connections (1 + int (length (active_connections m)))
               (m\<lparr>active_connections := active_connections m @ [websocket]\<rparr>))))"
  by (simp add: connect_def accept_def datetime_now_def Let_def)

lemma reply_frame:
  "reply websocket v e m = (x, e1, m1) \<Longrightarrow>
     m1 = m \<and> clock e1 = clock e \<and> ticks e1 = ticks e \<and> dead e1 = dead e"
  by (auto simp: reply_def send_text_def split: sum.splits if_splits)

text \<open>
  The loop of \<^verbatim>\<open>send_to_all\<close> returns normally from every index, and writes neither
  \<^verbatim>\<open>stats\<close> nor the clock. By computation induction: one case for the end of the
  list, one for a send that succeeds, one for a send that raises.
\<close>

lemma for_connection_frame:
  "\<exists>e' m'. for_connection message i e m = Inr (e', m')
     \<and> stats m' = stats m \<and> clock e' = clock e \<and> ticks e' = ticks e \<and> dead e' = dead e"
proof (induction message i e m rule: for_connection.induct)
  case (1 message i e m)
  show ?case
  proof (cases "i < length (active_connections m)")
    case False
    then show ?thesis by (simp add: for_connection.simps)
  next
    case True
    let ?c = "active_connections m ! i"
    have mem: "?c \<in> set (active_connections m)" using True by simp
    show ?thesis
    proof (cases "case json_dumps message of Inl x \<Rightarrow> Inl x | Inr text \<Rightarrow> send_text ?c text e")
      case (Inr e1)
      have fr: "clock e1 = clock e \<and> ticks e1 = ticks e \<and> dead e1 = dead e"
        using Inr by (auto simp: send_text_def split: sum.splits if_splits)
      from "1.IH"(3)[OF True refl Inr]
      obtain e' m' where "for_connection message (i + 1) e1 m = Inr (e', m')"
        "stats m' = stats m" "clock e' = clock e1" "ticks e' = ticks e1" "dead e' = dead e1"
        by blast
      with fr True Inr show ?thesis
        by (subst for_connection.simps) simp
    next
      case (Inl x)
      have rm: "list_remove ?c (active_connections m) = Inr (remove1 ?c (active_connections m))"
        using mem by (simp add: list_remove_def)
      from "1.IH"(1)[OF True refl Inl mem rm]
      obtain e' m' where "for_connection message (i + 1) e
           (m\<lparr>active_connections := remove1 ?c (active_connections m)\<rparr>) = Inr (e', m')"
        "stats m' = stats m" "clock e' = clock e" "ticks e' = ticks e" "dead e' = dead e"
        by auto
      with True Inl mem rm show ?thesis
        by (subst for_connection.simps) simp
    qed
  qed
qed

lemma run_append: "run loads (evs @ evs') s = run loads evs' (run loads evs s)"
  by (induction evs arbitrary: s) simp_all

lemma mono_env0: "mono (clock env0)"
  by (auto simp: mono_def env0_def)

subsection \<open>The count under \<^verbatim>\<open>connect\<close> and \<^verbatim>\<open>disconnect\<close>\<close>

lemma call1_count:
  assumes "distinct (active_connections (snd s))"
    and "total_connections (stats (snd s)) = int (length (active_connections (snd s)))"
    and "registered_once [c] s"
  shows "distinct (active_connections (snd (call1 c s)))
    \<and> total_connections (stats (snd (call1 c s)))
        = int (length (active_connections (snd (call1 c s))))"
proof -
  obtain e m where s: "s = (e, m)" by (cases s)
  show ?thesis
  proof (cases c)
    case (Register w)
    with assms s show ?thesis
      by (simp add: connect_eq set_last_update_def set_total_connections_def)
  next
    case (Unregister w)
    with assms s show ?thesis
      by (simp add: disconnect_eq set_last_update_def set_total_connections_def)
  qed
qed

lemma calls_count:
  assumes "distinct (active_connections (snd s))"
    and "total_connections (stats (snd s)) = int (length (active_connections (snd s)))"
    and "registered_once cs s"
  shows "distinct (active_connections (snd (calls cs s)))
    \<and> total_connections (stats (snd (calls cs s)))
        = int (length (active_connections (snd (calls cs s))))"
  using assms
proof (induction cs arbitrary: s)
  case Nil
  then show ?case by simp
next
  case (Cons c cs)
  have one: "registered_once [c] s" and rest: "registered_once cs (call1 c s)"
    using Cons.prems(3) by (cases c; simp)+
  from call1_count [OF Cons.prems(1,2) one] rest
  show ?case using Cons.IH [of "call1 c s"] by simp
qed

subsection \<open>The clock and \<^verbatim>\<open>last_update\<close>\<close>

text \<open>
  Under a clock whose readings do not go down, every operation takes a state whose
  \<^verbatim>\<open>last_update\<close> is at most the next reading to a state of the same kind with a
  \<^verbatim>\<open>last_update\<close> that is not smaller: an operation either writes the reading it
  takes, or leaves \<^verbatim>\<open>last_update\<close> as it is.
\<close>

lemma advances_write:
  assumes "mono (clock e)" and "last_update (stats m) \<le> Some (clock e (ticks e))"
    and "clock e' = clock e" and "ticks e' = Suc (ticks e)"
    and "last_update (stats m') = Some (clock e (ticks e))"
  shows "advances (e, m) (e', m')"
  using assms by (simp add: advances_def monoD)

lemma advances_read:
  assumes "mono (clock e)" and "last_update (stats m) \<le> Some (clock e (ticks e))"
    and "clock e' = clock e" and "ticks e \<le> ticks e'"
    and "last_update (stats m') = last_update (stats m)"
  shows "advances (e, m) (e', m')"
proof -
  have "clock e (ticks e) \<le> clock e (ticks e')"
    using assms(1,4) by (simp add: monoD)
  then have "Some (clock e (ticks e)) \<le> Some (clock e (ticks e'))" by simp
  with assms(2) have "last_update (stats m) \<le> Some (clock e (ticks e'))"
    by (rule order_trans)
  with assms(3,5) show ?thesis by (simp add: advances_def)
qed

lemma advances_trans:
  "advances s s1 \<Longrightarrow> advances s1 s2 \<Longrightarrow> advances s s2"
  unfolding advances_def by (metis order_trans)

lemma advances_inv:
  "advances (e, m) (e', m') \<Longrightarrow> mono (clock e) \<Longrightarrow>
     mono (clock e') \<and> last_update (stats m') \<le> Some (clock e' (ticks e'))"
  by (auto simp: advances_def)

lemma disconnect_advances:
  assumes "mono (clock e)" and "last_update (stats m) \<le> Some (clock e (ticks e))"
    and "disconnect websocket e m = Inr (e', m')"
  shows "advances (e, m) (e', m')"
proof (rule advances_write [OF assms(1,2)])
  show "clock e' = clock e" "ticks e' = Suc (ticks e)"
    "last_update (stats m') = Some (clock e (ticks e))"
    using assms(3) by (auto simp: disconnect_eq set_last_update_def set_total_connections_def)
qed

lemma connect_advances:
  assumes "mono (clock e)" and "last_update (stats m) \<le> Some (clock e (ticks e))"
    and "connect websocket e m = Inr (e', m')"
  shows "advances (e, m) (e', m')"
proof (rule advances_write [OF assms(1,2)])
  show "clock e' = clock e" "ticks e' = Suc (ticks e)"
    "last_update (stats m') = Some (clock e (ticks e))"
    using assms(3)
    by (auto simp: connect_eq set_last_update_def set_total_connections_def split: if_splits)
qed

lemma loop_body_advances:
  assumes "mono (clock e)" and "last_update (stats m) \<le> Some (clock e (ticks e))"
    and "loop_body loads websocket inb e m = (x, e', m')"
  shows "advances (e, m) (e', m')"
proof -
  have "(clock e' = clock e \<and> ticks e' = Suc (ticks e)
           \<and> last_update (stats m') = Some (clock e (ticks e)))
        \<or> (clock e' = clock e \<and> ticks e \<le> ticks e'
           \<and> last_update (stats m') = last_update (stats m))"
    using assms(3)
    by (auto simp: loop_body_def datetime_now_def set_last_update_def set_is_monitoring_def
          split: inbound.splits sum.splits if_splits dest!: reply_frame)
  then show ?thesis
    using advances_write [OF assms(1,2)] advances_read [OF assms(1,2)] by blast
qed

lemma websocket_step_advances:
  assumes "mono (clock e)" and "last_update (stats m) \<le> Some (clock e (ticks e))"
    and "websocket_step loads websocket inb e m = Inr (st, e', m')"
  shows "advances (e, m) (e', m')"
proof (cases "loop_body loads websocket inb e m")
  case (fields x e1 m1)
  have a1: "advances (e, m) (e1, m1)"
    by (rule loop_body_advances [OF assms(1,2) fields])
  show ?thesis
  proof (cases x)
    case None
    with fields assms(3) a1 show ?thesis by (simp add: websocket_step_def)
  next
    case (Some y)
    with fields assms(3) have d: "disconnect websocket e1 m1 = Inr (e', m')"
      by (cases y) (simp_all add: websocket_step_def disconnect_eq)
    from advances_inv [OF a1 assms(1)]
    have "advances (e1, m1) (e', m')"
      using d by (auto intro: disconnect_advances)
    with a1 show ?thesis by (rule advances_trans)
  qed
qed

lemma send_to_all_advances:
  assumes "mono (clock e)" and "last_update (stats m) \<le> Some (clock e (ticks e))"
    and "send_to_all message e m = Inr (e', m')"
  shows "advances (e, m) (e', m')"
proof -
  from for_connection_frame [of message 0 e m] assms(3)
  have "clock e' = clock e" "ticks e \<le> ticks e'" "last_update (stats m') = last_update (stats m)"
    by (auto simp: send_to_all_def)
  then show ?thesis by (rule advances_read [OF assms(1,2)])
qed

lemma set_monitoring_advances:
  assumes "mono (clock e)" and "last_update (stats m) \<le> Some (clock e (ticks e))"
  shows "advances (e, m)
     (snd (datetime_now e), set_last_update (fst (datetime_now e)) (set_is_monitoring b m))"
  by (rule advances_write [OF assms])
    (simp_all add: datetime_now_def set_last_update_def set_is_monitoring_def)

lemma start_monitoring_advances:
  assumes "mono (clock e)" and "last_update (stats m) \<le> Some (clock e (ticks e))"
    and "start_monitoring e m = Inr (body, e', m')"
  shows "advances (e, m) (e', m')"
proof -
  let ?e1 = "snd (datetime_now e)"
  let ?m2 = "set_last_update (fst (datetime_now e)) (set_is_monitoring True m)"
  have a1: "advances (e, m) (?e1, ?m2)"
    by (rule set_monitoring_advances [OF assms(1,2)])
  obtain message where "send_to_all message ?e1 ?m2 = Inr (e', m')"
    using assms(3) by (auto simp: start_monitoring_def Let_def split: prod.splits sum.splits)
  with advances_inv [OF a1 assms(1)] have "advances (?e1, ?m2) (e', m')"
    by (auto intro: send_to_all_advances)
  with a1 show ?thesis by (rule advances_trans)
qed

lemma stop_monitoring_advances:
  assumes "mono (clock e)" and "last_update (stats m) \<le> Some (clock e (ticks e))"
    and "stop_monitoring e m = Inr (body, e', m')"
  shows "advances (e, m) (e', m')"
proof -
  let ?e1 = "snd (datetime_now e)"
  let ?m2 = "set_last_update (fst (datetime_now e)) (set_is_monitoring False m)"
  have a1: "advances (e, m) (?e1, ?m2)"
    by (rule set_monitoring_advances [OF assms(1,2)])
  obtain message where "send_to_all message ?e1 ?m2 = Inr (e', m')"
    using assms(3) by (auto simp: stop_monitoring_def Let_def split: prod.splits sum.splits)
  with advances_inv [OF a1 assms(1)] have "advances (?e1, ?m2) (e', m')"
    by (auto intro: send_to_all_advances)
  with a1 show ?thesis by (rule advances_trans)
qed

lemma exec_advances:
  assumes "mono (clock (fst s))"
    and "last_update (stats (snd s)) \<le> Some (clock (fst s) (ticks (fst s)))"
  shows "advances s (exec loads ev s)"
proof -
  obtain e m where s: "s = (e, m)" by (cases s)
  have mo: "mono (clock e)" and le: "last_update (stats m) \<le> Some (clock e (ticks e))"
    using assms s by simp_all
  have same: "advances (e, m) (e, m)"
    by (rule advances_read [OF mo le]) simp_all
  show ?thesis
  proof (cases ev)
    case (Connect c)
    then show ?thesis
      using s same connect_advances [OF mo le] by (auto split: sum.splits)
  next
    case (Receive c inb)
    then show ?thesis
      using s same websocket_step_advances [OF mo le] by (auto split: sum.splits)
  next
    case PostStart
    then show ?thesis
      using s same start_monitoring_advances [OF mo le] by (auto split: sum.splits)
  next
    case PostStop
    then show ?thesis
      using s same stop_monitoring_advances [OF mo le] by (auto split: sum.splits)
  next
    case GetHealth
    have "advances (e, m) (snd (health_check e m), m)"
      by (rule advances_read [OF mo le]) (simp_all add: health_check_def datetime_now_def)
    with GetHealth s show ?thesis by simp
  next
    case GetStats
    have "advances (e, m) (snd (get_stats e m), m)"
      by (rule advances_read [OF mo le]) (simp_all add: get_stats_def datetime_now_def)
    with GetStats s show ?thesis by simp
  next
    case (TransportFails c)
    have "advances (e, m) (e\<lparr>dead := insert c (dead e)\<rparr>, m)"
      by (rule advances_read [OF mo le]) simp_all
    with TransportFails s show ?thesis by simp
  qed
qed

lemma run_advances:
  assumes "mono (clock (fst s))"
    and "last_update (stats (snd s)) \<le> Some (clock (fst s) (ticks (fst s)))"
  shows "advances s (run loads evs s)"
  using assms
proof (induction evs arbitrary: s)
  case Nil
  obtain e m where "s = (e, m)" by (cases s)
  with Nil advances_read [of e m e m] show ?case by simp
next
  case (Cons ev evs)
  have a1: "advances s (exec loads ev s)"
    by (rule exec_advances [OF Cons.prems])
  then have "mono (clock (fst (exec loads ev s)))"
    and "last_update (stats (snd (exec loads ev s)))
           \<le> Some (clock (fst (exec loads ev s)) (ticks (fst (exec loads ev s))))"
    using Cons.prems(1) by (auto simp: advances_def)
  then have "advances (exec loads ev s) (run loads evs (exec loads ev s))"
    by (rule Cons.IH)
  with a1 show ?case by (simp add: advances_trans)
qed

section \<open>Broadcast\<close>

text \<open>
  C4. For every message and every connection list, whichever sends fail (the connections
  in \<open>dead e\<close> are arbitrary, and so is a message that \<^verbatim>\<open>json.dumps\<close> rejects),
  \<^verbatim>\<open>send_to_all\<close> returns normally: no exception reaches its caller.
\<close>

theorem send_to_all_never_raises:
  "\<exists>e' m'. send_to_all message e m = Inr (e', m')"
  using for_connection_frame [of message 0 e m]
  by (auto simp: send_to_all_def)

text \<open>
  C8. \<^verbatim>\<open>send_to_all\<close> writes none of the three entries of \<^verbatim>\<open>stats\<close>: for every
  message, environment and manager, \<^verbatim>\<open>total_connections\<close>, \<^verbatim>\<open>is_monitoring\<close> and
  \<^verbatim>\<open>last_update\<close> are after the call what they were before it, also when the call has
  removed connections from \<^verbatim>\<open>active_connections\<close>.
\<close>

theorem send_to_all_keeps_stats:
  "\<exists>e' m'. send_to_all message e m = Inr (e', m')
     \<and> total_connections (stats m') = total_connections (stats m)
     \<and> is_monitoring (stats m') = is_monitoring (stats m)
     \<and> last_update (stats m') = last_update (stats m)"
  using for_connection_frame [of message 0 e m]
  by (auto simp: send_to_all_def)

text \<open>
  C1. The claim: with one failing connection among \<open>N\<close>, the broadcast reaches the
  \<open>N - 1\<close> healthy ones, removes the failing one, and the stored count goes down by one.
  The code at \<^verbatim>\<open>active_connections = [1, 2, 3]\<close> where the send to \<open>2\<close> raises:
  \<open>2\<close> is removed while the list is being iterated, \<open>3\<close> moves to the index just
  visited and is never sent to; only \<open>1\<close> receives the message, and
  \<^verbatim>\<open>stats["total_connections"]\<close> is still \<open>3\<close>.
\<close>

theorem send_to_all_skips_after_removal:
  "send_to_all (PDict [(''type'', PStr ''monitoring_started''),
                       (''message'', PStr ''Monitoring started from API'')])
     (env0\<lparr>ticks := 4, dead := {2}\<rparr>)
     \<lparr>active_connections = [1, 2, 3],
      stats = \<lparr>total_connections = 3, is_monitoring = True,
               last_update = Some ''2025-06-01T09:15:07.301000''\<rparr>\<rparr>
   = Inr (env0\<lparr>ticks := 4, dead := {2},
               delivered := [(1, PDict [(''type'', PStr ''monitoring_started''),
                                        (''message'', PStr ''Monitoring started from API'')])]\<rparr>,
          \<lparr>active_connections = [1, 3],
           stats = \<lparr>total_connections = 3, is_monitoring = True,
                    last_update = Some ''2025-06-01T09:15:07.301000''\<rparr>\<rparr>)"
  by (simp add: send_to_all_def for_connection.simps json_dumps_def send_text_def
        list_remove_def env0_def)

section \<open>The stored count and the live connections\<close>

text \<open>
  C2. The claim: after every operation, also a broadcast that removed connections,
  \<^verbatim>\<open>stats["total_connections"]\<close> is the number of connections in
  \<^verbatim>\<open>active_connections\<close>. The code: three clients connect, the transport of the
  second fails, \<^verbatim>\<open>POST /start\<close> broadcasts. Afterwards two connections are
  registered and the stored count is \<open>3\<close>.
\<close>

theorem count_stale_after_broadcast:
  "total_connections (stats (snd (run loads0
       [Connect 1, Connect 2, Connect 3, TransportFails 2, PostStart] (env0, init)))) = 3
   \<and> active_connections (snd (run loads0
       [Connect 1, Connect 2, Connect 3, TransportFails 2, PostStart] (env0, init))) = [1, 3]"
  by (simp add: send_to_all_def for_connection.simps json_dumps_def send_text_def
        list_remove_def env0_def init_def connect_def accept_def datetime_now_def
        start_monitoring_def set_last_update_def set_is_monitoring_def
        set_total_connections_def)

text \<open>
  C5. The claim: the reply to \<^verbatim>\<open>get_stats\<close> carries in \<^verbatim>\<open>data.total_connections\<close>
  the number of live connections, in every reachable state. The code, in the state reached
  above: connection \<open>1\<close> asks for the stats and is told \<open>3\<close>, while two connections
  are registered.
\<close>

theorem get_stats_reply_stale_after_broadcast:
  "last (delivered (fst (run loads0
       [Connect 1, Connect 2, Connect 3, TransportFails 2, PostStart,
        Receive 1 (Text ''{\"type\": \"get_stats\"}'')] (env0, init))))
     = (1, PDict [(''type'', PStr ''stats''),
                  (''data'', PDict [(''total_connections'', PInt 3),
                                    (''is_monitoring'', PBool True),
                                    (''last_update'', PStr ''2025-06-01T09:15:07.301000'')])])
   \<and> length (active_connections (snd (run loads0
       [Connect 1, Connect 2, Connect 3, TransportFails 2, PostStart,
        Receive 1 (Text ''{\"type\": \"get_stats\"}'')] (env0, init)))) = 2"
  by (simp add: send_to_all_def for_connection.simps json_dumps_def send_text_def
        list_remove_def env0_def init_def connect_def accept_def datetime_now_def
        start_monitoring_def set_last_update_def set_is_monitoring_def
        set_total_connections_def websocket_step_def loop_body_def reply_def
        stats_value_def loads0_def)

section \<open>Register and unregister\<close>

text \<open>
  C6. Start from the initial manager and make any sequence of \<^verbatim>\<open>connect\<close> and
  \<^verbatim>\<open>disconnect\<close> calls in which a connection is passed to \<^verbatim>\<open>connect\<close> only
  while it is not registered. Then \<^verbatim>\<open>stats["total_connections"]\<close> is the number of
  distinct connections in \<^verbatim>\<open>active_connections\<close>. A further \<^verbatim>\<open>disconnect\<close> of
  a connection that is not registered raises nothing, leaves the list as it is, and
  leaves the count equal to the size of the set.
\<close>

theorem count_after_register_unregister:
  assumes "registered_once cs (e, init)"
  shows "total_connections (stats (snd (calls cs (e, init))))
           = int (card (set (active_connections (snd (calls cs (e, init))))))
    \<and> (\<forall>c e2. c \<notin> set (active_connections (snd (calls cs (e, init)))) \<longrightarrow>
          (\<exists>e' m'. disconnect c e2 (snd (calls cs (e, init))) = Inr (e', m')
             \<and> active_connections m' = active_connections (snd (calls cs (e, init)))
             \<and> total_connections (stats m') = int (card (set (active_connections m')))))"
proof -
  let ?m = "snd (calls cs (e, init))"
  have "distinct (active_connections ?m)
      \<and> total_connections (stats ?m) = int (length (active_connections ?m))"
  proof (rule calls_count)
    show "distinct (active_connections (snd (e, init)))"
      by (simp add: init_def)
    show "total_connections (stats (snd (e, init)))
        = int (length (active_connections (snd (e, init))))"
      by (simp add: init_def)
    show "registered_once cs (e, init)"
      by (rule assms)
  qed
  then show ?thesis
    by (simp add: distinct_card disconnect_eq remove1_idem set_last_update_def
          set_total_connections_def)
qed

theorem count_after_register_unregister_witness:
  "registered_once [Register 1, Register 2, Unregister 1, Unregister 7, Register 1] (env0, init)
   \<and> active_connections
        (snd (calls [Register 1, Register 2, Unregister 1, Unregister 7, Register 1] (env0, init)))
       = [2, 1]
   \<and> total_connections (stats
        (snd (calls [Register 1, Register 2, Unregister 1, Unregister 7, Register 1] (env0, init))))
       = int (card (set (active_connections
        (snd (calls [Register 1, Register 2, Unregister 1, Unregister 7, Register 1]
               (env0, init))))))"
proof -
  have h: "registered_once [Register 1, Register 2, Unregister 1, Unregister 7, Register 1]
             (env0, init)"
    by (simp add: connect_eq disconnect_eq env0_def init_def set_last_update_def
          set_total_connections_def)
  have l: "active_connections
        (snd (calls [Register 1, Register 2, Unregister 1, Unregister 7, Register 1] (env0, init)))
       = [2, 1]"
    by (simp add: connect_eq disconnect_eq env0_def init_def set_last_update_def
          set_total_connections_def)
  from count_after_register_unregister [OF h] h l show ?thesis
    by blast
qed

text \<open>
  C10. \<^verbatim>\<open>disconnect\<close> of a connection that is not in \<^verbatim>\<open>active_connections\<close>
  leaves the list alone, and still sets \<^verbatim>\<open>stats["total_connections"]\<close> to the
  length of the list and \<^verbatim>\<open>stats["last_update"]\<close> to a fresh reading of the clock.
\<close>

theorem disconnect_absent_rewrites_stats:
  assumes "websocket \<notin> set (active_connections m)"
  shows "disconnect websocket e m =
     Inr (e\<lparr>ticks := ticks e + 1\<rparr>,
          m\<lparr>stats := (stats m)\<lparr>total_connections := int (length (active_connections m)),
                                last_update := Some (clock e (ticks e))\<rparr>\<rparr>)"
  using assms
  by (simp add: disconnect_eq remove1_idem set_last_update_def set_total_connections_def)

text \<open>
  The state that the broadcast of C2 left: the session of connection \<open>2\<close>, already
  removed from the list by the broadcast, now calls \<^verbatim>\<open>disconnect\<close>. The list is the
  same; the count goes from \<open>3\<close> to \<open>2\<close> and \<^verbatim>\<open>last_update\<close> is overwritten.
\<close>

theorem disconnect_absent_rewrites_stats_witness:
  "(2::nat) \<notin> set [1, 3]
   \<and> disconnect 2 (env0\<lparr>ticks := 4, dead := {2}\<rparr>)
       \<lparr>active_connections = [1, 3],
        stats = \<lparr>total_connections = 3, is_monitoring = True,
                 last_update = Some ''2025-06-01T09:15:07.301000''\<rparr>\<rparr>
     = Inr (env0\<lparr>ticks := 5, dead := {2}\<rparr>,
       \<lparr>active_connections = [1, 3],
        stats = \<lparr>total_connections = 2, is_monitoring = True,
                 last_update = Some ''2025-06-01T09:16:00''\<rparr>\<rparr>)"
  using disconnect_absent_rewrites_stats
      [of 2 "\<lparr>active_connections = [1, 3],
        stats = \<lparr>total_connections = 3, is_monitoring = True,
                 last_update = Some ''2025-06-01T09:15:07.301000''\<rparr>\<rparr>"
          "env0\<lparr>ticks := 4, dead := {2}\<rparr>"]
  by (simp add: env0_def)

section \<open>The session handler\<close>




text \<open>
  C9. In the \<^verbatim>\<open>start_monitoring\<close> and \<^verbatim>\<open>stop_monitoring\<close> branches the handler
  writes \<^verbatim>\<open>is_monitoring\<close> and \<^verbatim>\<open>last_update\<close> before it sends the reply. When the
  send raises, the \<^verbatim>\<open>try\<close> block is left with both already written; the handler then
  does nothing but \<^verbatim>\<open>disconnect\<close> the connection, so the new value of
  \<^verbatim>\<open>is_monitoring\<close> stays. (\<open>b\<close> is \<open>True\<close> for \<^verbatim>\<open>start_monitoring\<close>, \<open>False\<close>
  for \<^verbatim>\<open>stop_monitoring\<close>.)
\<close>

theorem monitoring_write_survives_failed_reply:
  assumes "loads data = Inr v"
    and "py_get v ''type'' = Inr (PStr (if b then ''start_monitoring'' else ''stop_monitoring''))"
    and "websocket \<in> dead e"
  shows "loop_body loads websocket (Text data) e m =
           (Some RuntimeError, snd (datetime_now e),
            set_last_update (fst (datetime_now e)) (set_is_monitoring b m))
    \<and> (\<exists>e' m'. disconnect websocket (snd (datetime_now e))
                  (set_last_update (fst (datetime_now e)) (set_is_monitoring b m)) = Inr (e', m')
          \<and> websocket_step loads websocket (Text data) e m = Inr (Closed, e', m')
          \<and> is_monitoring (stats m') = b)"
proof -
  have "loop_body loads websocket (Text data) e m =
           (Some RuntimeError, snd (datetime_now e),
            set_last_update (fst (datetime_now e)) (set_is_monitoring b m))"
    using assms
    by (cases b)
      (simp_all add: loop_body_def reply_def json_dumps_def send_text_def datetime_now_def)
  then show ?thesis
    by (simp add: websocket_step_def disconnect_eq set_last_update_def
          set_total_connections_def set_is_monitoring_def)
qed

text \<open>
  Two connections are registered and monitoring is off; connection \<open>1\<close> sends
  \<^verbatim>\<open>{"type": "start_monitoring"}\<close> and its transport fails before the reply.
  Monitoring is on afterwards, and connection \<open>1\<close> is unregistered.
\<close>

theorem monitoring_write_survives_failed_reply_witness:
  "loads0 ''{\"type\": \"start_monitoring\"}'' = Inr (PDict [(''type'', PStr ''start_monitoring'')])
   \<and> (1::nat) \<in> dead (env0\<lparr>ticks := 2, dead := {1}\<rparr>)
   \<and> websocket_step loads0 1 (Text ''{\"type\": \"start_monitoring\"}'')
       (env0\<lparr>ticks := 2, dead := {1}\<rparr>)
       \<lparr>active_connections = [1, 2],
        stats = \<lparr>total_connections = 2, is_monitoring = False,
                 last_update = Some ''2025-06-01T09:15:02''\<rparr>\<rparr>
     = Inr (Closed, env0\<lparr>ticks := 4, dead := {1}\<rparr>,
       \<lparr>active_connections = [2],
        stats = \<lparr>total_connections = 1, is_monitoring = True,
                 last_update = Some ''2025-06-01T09:15:07.301000''\<rparr>\<rparr>)"
proof -
  have h1: "loads0 ''{\"type\": \"start_monitoring\"}''
      = Inr (PDict [(''type'', PStr ''start_monitoring'')])"
    by (simp add: loads0_def)
  have h2: "py_get (PDict [(''type'', PStr ''start_monitoring'')]) ''type''
      = Inr (PStr (if True then ''start_monitoring'' else ''stop_monitoring''))"
    by simp
  have h3: "(1::nat) \<in> dead (env0\<lparr>ticks := 2, dead := {1}\<rparr>)"
    by simp
  from monitoring_write_survives_failed_reply
      [of loads0 "''{\"type\": \"start_monitoring\"}''"
          "PDict [(''type'', PStr ''start_monitoring'')]" True 1
          "env0\<lparr>ticks := 2, dead := {1}\<rparr>"
          "\<lparr>active_connections = [1, 2],
        stats = \<lparr>total_connections = 2, is_monitoring = False,
                 last_update = Some ''2025-06-01T09:15:02''\<rparr>\<rparr>", OF h1 h2 h3]
  show ?thesis
    using h1 h3
    by (simp add: disconnect_eq datetime_now_def set_last_update_def
          set_total_connections_def set_is_monitoring_def env0_def)
qed

section \<open>The time of the last update\<close>

text \<open>
  C7, as amended. \<^verbatim>\<open>last_update\<close> starts as \<^verbatim>\<open>None\<close>, and every operation that
  writes it stores the reading of \<^verbatim>\<open>datetime.now()\<close> that it takes:
  \<^item> \<^verbatim>\<open>connect\<close> (when \<^verbatim>\<open>accept\<close> does not raise) and \<^verbatim>\<open>disconnect\<close> leave
    \<^verbatim>\<open>last_update\<close> equal to the reading they take;
  \<^item> the \<^verbatim>\<open>start_monitoring\<close> and \<^verbatim>\<open>stop_monitoring\<close> branches of the handler
    write their reading before the reply; after the whole pass \<^verbatim>\<open>last_update\<close> is
    that reading, or, when the reply raised, the next reading, taken by the
    \<^verbatim>\<open>disconnect\<close> of the \<^verbatim>\<open>except\<close> clause;
  \<^item> \<^verbatim>\<open>POST /start\<close> and \<^verbatim>\<open>POST /stop\<close> return with \<^verbatim>\<open>last_update\<close> equal to
    the reading they take.

  So when the readings of the clock never go down, \<^verbatim>\<open>last_update\<close> never goes
  down: in every execution from the initial manager, its value after a later operation
  is at least its value after an earlier one (\<^verbatim>\<open>None\<close> is below every time; the
  ISO-8601 texts are compared as strings, which orders them as their instants).
\<close>

theorem last_update_monotone:
  "(websocket \<notin> dead e \<longrightarrow>
      (\<exists>e' m'. connect websocket e m = Inr (e', m')
         \<and> last_update (stats m') = Some (clock e (ticks e))))
   \<and> (\<exists>e' m'. disconnect websocket e m = Inr (e', m')
         \<and> last_update (stats m') = Some (clock e (ticks e)))
   \<and> (loads data = Inr v
        \<and> py_get v ''type'' = Inr (PStr (if b then ''start_monitoring'' else ''stop_monitoring''))
      \<longrightarrow> (\<exists>x e1 m1. loop_body loads websocket (Text data) e m = (x, e1, m1)
               \<and> last_update (stats m1) = Some (clock e (ticks e)))
          \<and> (\<exists>st e' m'. websocket_step loads websocket (Text data) e m = Inr (st, e', m')
               \<and> last_update (stats m')
                   = Some (clock e (if websocket \<in> dead e then ticks e + 1 else ticks e))))
   \<and> (\<exists>body e' m'. start_monitoring e m = Inr (body, e', m')
         \<and> last_update (stats m') = Some (clock e (ticks e)))
   \<and> (\<exists>body e' m'. stop_monitoring e m = Inr (body, e', m')
         \<and> last_update (stats m') = Some (clock e (ticks e)))
   \<and> (mono (clock e) \<longrightarrow>
        last_update (stats (snd (run loads evs (e, init))))
          \<le> last_update (stats (snd (run loads (evs @ evs') (e, init)))))"
proof (intro conjI impI)
  assume "websocket \<notin> dead e"
  then show "\<exists>e' m'. connect websocket e m = Inr (e', m')
         \<and> last_update (stats m') = Some (clock e (ticks e))"
    by (simp add: connect_eq set_last_update_def set_total_connections_def)
next
  show "\<exists>e' m'. disconnect websocket e m = Inr (e', m')
         \<and> last_update (stats m') = Some (clock e (ticks e))"
    by (simp add: disconnect_eq set_last_update_def set_total_connections_def)
next
  assume h: "loads data = Inr v
        \<and> py_get v ''type'' = Inr (PStr (if b then ''start_monitoring'' else ''stop_monitoring''))"
  let ?e1 = "snd (datetime_now e)"
  let ?m2 = "set_last_update (fst (datetime_now e)) (set_is_monitoring b m)"
  let ?started = "PDict [(''type'', PStr ''monitoring_started''),
                         (''message'', PStr ''Monitoring started successfully'')]"
  let ?stopped = "PDict [(''type'', PStr ''monitoring_stopped''),
                         (''message'', PStr ''Monitoring stopped successfully'')]"
  have lb: "loop_body loads websocket (Text data) e m
      = reply websocket (if b then ?started else ?stopped) ?e1 ?m2"
    using h by (cases b) (simp_all add: loop_body_def datetime_now_def)
  have rp: "reply websocket (if b then ?started else ?stopped) ?e1 ?m2
      = (if websocket \<in> dead e then (Some RuntimeError, ?e1, ?m2)
         else (None, ?e1\<lparr>delivered := delivered e
                 @ [(websocket, if b then ?started else ?stopped)]\<rparr>, ?m2))"
    by (simp add: reply_def json_dumps_def send_text_def datetime_now_def)
  have lu: "last_update (stats ?m2) = Some (clock e (ticks e))"
    by (simp add: set_last_update_def datetime_now_def)
  show "\<exists>x e1 m1. loop_body loads websocket (Text data) e m = (x, e1, m1)
               \<and> last_update (stats m1) = Some (clock e (ticks e))"
    using lb rp lu by simp
  show "\<exists>st e' m'. websocket_step loads websocket (Text data) e m = Inr (st, e', m')
               \<and> last_update (stats m')
                   = Some (clock e (if websocket \<in> dead e then ticks e + 1 else ticks e))"
  proof (cases "websocket \<in> dead e")
    case True
    with lb rp show ?thesis
      by (simp add: websocket_step_def disconnect_eq set_last_update_def
            set_total_connections_def datetime_now_def)
  next
    case False
    with lb rp lu show ?thesis
      by (simp add: websocket_step_def)
  qed
next
  let ?e1 = "snd (datetime_now e)"
  let ?m2 = "set_last_update (fst (datetime_now e)) (set_is_monitoring True m)"
  let ?msg = "PDict [(''type'', PStr ''monitoring_started''),
                     (''message'', PStr ''Monitoring started from API'')]"
  from for_connection_frame [of ?msg 0 ?e1 ?m2]
  obtain e' m' where "send_to_all ?msg ?e1 ?m2 = Inr (e', m')" and "stats m' = stats ?m2"
    by (auto simp: send_to_all_def)
  then show "\<exists>body e' m'. start_monitoring e m = Inr (body, e', m')
         \<and> last_update (stats m') = Some (clock e (ticks e))"
    by (simp add: start_monitoring_def datetime_now_def set_last_update_def)
next
  let ?e1 = "snd (datetime_now e)"
  let ?m2 = "set_last_update (fst (datetime_now e)) (set_is_monitoring False m)"
  let ?msg = "PDict [(''type'', PStr ''monitoring_stopped''),
                     (''message'', PStr ''Monitoring stopped from API'')]"
  from for_connection_frame [of ?msg 0 ?e1 ?m2]
  obtain e' m' where "send_to_all ?msg ?e1 ?m2 = Inr (e', m')" and "stats m' = stats ?m2"
    by (auto simp: send_to_all_def)
  then show "\<exists>body e' m'. stop_monitoring e m = Inr (body, e', m')
         \<and> last_update (stats m') = Some (clock e (ticks e))"
    by (simp add: stop_monitoring_def datetime_now_def set_last_update_def)
next
  assume mo: "mono (clock e)"
  let ?s = "run loads evs (e, init)"
  have "advances (e, init) ?s"
    by (rule run_advances) (simp_all add: mo init_def)
  then have "mono (clock (fst ?s))"
    and "last_update (stats (snd ?s)) \<le> Some (clock (fst ?s) (ticks (fst ?s)))"
    using mo by (auto simp: advances_def)
  then have "advances ?s (run loads evs' ?s)"
    by (rule run_advances)
  then show "last_update (stats (snd (run loads evs (e, init))))
          \<le> last_update (stats (snd (run loads (evs @ evs') (e, init))))"
    by (simp add: run_append advances_def)
qed

text \<open>
  Two clients connect, the first starts monitoring, the second disconnects, under the
  forward clock of \<open>env0\<close>: the four operations store the first four readings in turn.
\<close>

theorem last_update_monotone_witness:
  "mono (clock env0)
   \<and> (1::nat) \<notin> dead env0
   \<and> (\<exists>e' m'. connect 1 env0 init = Inr (e', m')
        \<and> last_update (stats m') = Some ''2025-06-01T09:15:00.120000'')
   \<and> last_update (stats (snd (run loads0 [Connect 1, Connect 2] (env0, init))))
       = Some ''2025-06-01T09:15:02''
   \<and> last_update (stats (snd (run loads0
        ([Connect 1, Connect 2]
           @ [Receive 1 (Text ''{\"type\": \"start_monitoring\"}'')]) (env0, init))))
       = Some ''2025-06-01T09:15:02.000750''
   \<and> last_update (stats (snd (run loads0
        ([Connect 1, Connect 2]
           @ [Receive 1 (Text ''{\"type\": \"start_monitoring\"}''),
              Receive 2 (Raises WebSocketDisconnect)]) (env0, init))))
       = Some ''2025-06-01T09:15:07.301000''
   \<and> last_update (stats (snd (run loads0 [Connect 1, Connect 2] (env0, init))))
       \<le> last_update (stats (snd (run loads0
            ([Connect 1, Connect 2]
               @ [Receive 1 (Text ''{\"type\": \"start_monitoring\"}''),
                  Receive 2 (Raises WebSocketDisconnect)]) (env0, init))))"
proof -
  have d: "(1::nat) \<notin> dead env0"
    by (simp add: env0_def)
  have c: "\<exists>e' m'. connect 1 env0 init = Inr (e', m')
        \<and> last_update (stats m') = Some ''2025-06-01T09:15:00.120000''"
    using last_update_monotone [of 1 env0 init] d
    by (simp add: env0_def)
  have le: "last_update (stats (snd (run loads0 [Connect 1, Connect 2] (env0, init))))
       \<le> last_update (stats (snd (run loads0
            ([Connect 1, Connect 2]
               @ [Receive 1 (Text ''{\"type\": \"start_monitoring\"}''),
                  Receive 2 (Raises WebSocketDisconnect)]) (env0, init))))"
    using last_update_monotone [of 1 env0] mono_env0
    by blast
  have v1: "last_update (stats (snd (run loads0 [Connect 1, Connect 2] (env0, init))))
       = Some ''2025-06-01T09:15:02''"
    by (simp add: connect_eq env0_def init_def set_last_update_def set_total_connections_def)
  have v2: "last_update (stats (snd (run loads0
        ([Connect 1, Connect 2]
           @ [Receive 1 (Text ''{\"type\": \"start_monitoring\"}'')]) (env0, init))))
       = Some ''2025-06-01T09:15:02.000750''"
    by (simp add: connect_eq env0_def init_def set_last_update_def set_total_connections_def
          set_is_monitoring_def websocket_step_def loop_body_def reply_def json_dumps_def
          send_text_def datetime_now_def loads0_def)
  have v3: "last_update (stats (snd (run loads0
        ([Connect 1, Connect 2]
           @ [Receive 1 (Text ''{\"type\": \"start_monitoring\"}''),
              Receive 2 (Raises WebSocketDisconnect)]) (env0, init))))
       = Some ''2025-06-01T09:15:07.301000''"
    by (simp add: connect_eq disconnect_eq env0_def init_def set_last_update_def
          set_total_connections_def set_is_monitoring_def websocket_step_def loop_body_def
          reply_def json_dumps_def send_text_def datetime_now_def loads0_def)
  from mono_env0 d c v1 v2 v3 le show ?thesis
    by blast
qed

text \<open>
  C7 as stated fails when the wall clock is set back: two clients connect at 02:59:58
  and 02:59:59, the clock goes back one hour, and the second client disconnects at
  02:00:00. \<^verbatim>\<open>last_update\<close> after the \<^verbatim>\<open>disconnect\<close> is below what it was after
  the second \<^verbatim>\<open>connect\<close>.
\<close>

theorem last_update_clock_set_back_counterexample:
  "last_update (stats (snd (run loads0 [Connect 1, Connect 2] (env_dst, init))))
     = Some ''2025-10-26T02:59:59.310000''
   \<and> last_update (stats (snd (run loads0
        ([Connect 1, Connect 2] @ [Receive 2 (Raises WebSocketDisconnect)]) (env_dst, init))))
     = Some ''2025-10-26T02:00:00.450000''
   \<and> \<not> (last_update (stats (snd (run loads0 [Connect 1, Connect 2] (env_dst, init))))
       \<le> last_update (stats (snd (run loads0
            ([Connect 1, Connect 2] @ [Receive 2 (Raises WebSocketDisconnect)])
            (env_dst, init)))))"
  by (simp add: connect_eq disconnect_eq websocket_step_def loop_body_def env_dst_def
        init_def set_last_update_def set_total_connections_def)

end
